theory Spec2Isabelle
  imports Complex_Main "HOL-Library.AList"
begin

section \<open>Python values, errors and the library functions the source calls\<close>

text \<open>
  A Python \<open>str\<close> is modelled by its UTF-8 bytes, so \<open>s.encode('utf-8')\<close> is the
  identity. A \<open>dict\<close> is an association list in insertion order; \<open>d[k] = v\<close> is
  \<open>AList.update k v d\<close> (an existing key keeps its place, a new key goes last).
\<close>

type_synonym 'v dict = "(string \<times> 'v) list"

text \<open>A Python \<open>float\<close>: a finite value, an infinity or a NaN.\<close>

datatype pyfloat = Finite rat | PosInf | NegInf | NaN

text \<open>The values that \<open>json.dumps\<close> accepts and \<open>json.loads\<close> returns.\<close>

datatype pyval =
    PyNone
  | PyBool bool
  | PyInt int
  | PyFloat pyfloat
  | PyStr string
  | PyList "pyval list"
  | PyDict "(string \<times> pyval) list"

text \<open>Python truthiness, as \<open>if x\<close> and \<open>x or y\<close> read it.\<close>

fun truthy :: "pyval \<Rightarrow> bool" where
  "truthy PyNone = False"
| "truthy (PyBool b) = b"
| "truthy (PyInt i) = (i \<noteq> 0)"
| "truthy (PyFloat x) = (x \<noteq> Finite 0)"
| "truthy (PyStr s) = (s \<noteq> [])"
| "truthy (PyList xs) = (xs \<noteq> [])"
| "truthy (PyDict kvs) = (kvs \<noteq> [])"

fun truthy_int :: "int option \<Rightarrow> bool" where
  "truthy_int None = False"
| "truthy_int (Some n) = (n \<noteq> 0)"

fun truthy_str :: "string option \<Rightarrow> bool" where
  "truthy_str None = False"
| "truthy_str (Some s) = (s \<noteq> [])"

text \<open>
  The exceptions the source raises or lets through. The messages of the two
  \<open>ValueError\<close>s of the source are not ASCII; they are told apart by constructor.
  \<open>json.JSONDecodeError\<close> is a subclass of ValueError in Python; it has a constructor of
  its own here, since the source catches it and no other ValueError.
\<close>

datatype value_error =
    BadProxyAddress              \<comment> \<open>HttpClient.py line 141\<close>
  | InvalidIntLiteral string     \<comment> \<open>\<open>int(s)\<close> on a string that is no integer\<close>
  | UnsupportedMethod string     \<comment> \<open>the \<open>else\<close> branch of \<open>request\<close>\<close>
  | IntDigitsLimitExceeded       \<comment> \<open>an integer literal of more digits than the interpreter converts\<close>

datatype py_error =
    Exception string             \<comment> \<open>\<open>raise Exception(message)\<close>\<close>
  | ValueError value_error
  | NameError string             \<comment> \<open>a global name that the module does not bind\<close>
  | JSONDecodeError              \<comment> \<open>\<open>json.JSONDecodeError\<close>: the text is not JSON\<close>
  | RecursionError               \<comment> \<open>nesting deeper than the interpreter's recursion limit\<close>
  | RequestException string      \<comment> \<open>whatever \<open>requests\<close> raises (timeout, refused, ...)\<close>

record ParseResult =
  path :: string
  query :: string

text \<open>
  The functions of the standard library and of \<open>requests\<close> that the source relies on and
  whose code is not in the repository. The general theorems below hold for all of them.
\<close>

record pylib =
  str_upper :: "string \<Rightarrow> string"                       \<comment> \<open>\<open>s.upper()\<close>\<close>
  int_of_str :: "string \<Rightarrow> int option"                   \<comment> \<open>\<open>int(s)\<close>; \<open>None\<close> is its ValueError\<close>
  bytes_decode_ignore :: "string \<Rightarrow> string"             \<comment> \<open>\<open>b.decode('utf-8', errors='ignore')\<close>\<close>
  sha256_hexdigest :: "string \<Rightarrow> string"                \<comment> \<open>\<open>hashlib.sha256(b).hexdigest()\<close>\<close>
  hmac_sha256_hexdigest :: "string \<Rightarrow> string \<Rightarrow> string" \<comment> \<open>\<open>hmac.new(key, msg, hashlib.sha256).hexdigest()\<close>\<close>
  json_dumps :: "pyval \<Rightarrow> string"                       \<comment> \<open>\<open>json.dumps(v, ensure_ascii=False)\<close>\<close>
  json_loads :: "string \<Rightarrow> py_error + pyval"            \<comment> \<open>\<open>json.loads(s)\<close>: the value, or the exception raised\<close>
  float_mul :: "rat \<Rightarrow> rat \<Rightarrow> rat"                  \<comment> \<open>\<open>a * b\<close> on floats: the product, rounded to a float\<close>
  urljoin :: "string \<Rightarrow> string \<Rightarrow> string"
  urlparse :: "string \<Rightarrow> ParseResult"
  form_urlencode :: "pyval dict \<Rightarrow> string"               \<comment> \<open>the body \<open>requests\<close> sends for \<open>data=\<close> a mapping\<close>

text \<open>What one call reads from the clock and the random source.\<close>

record world =
  time_time :: rat       \<comment> \<open>\<open>time.time()\<close>, seconds since the epoch: the value of a float\<close>
  uuid4_str :: string    \<comment> \<open>\<open>str(uuid.uuid4())\<close>\<close>

subsection \<open>Strings and integers\<close>

definition rstrip :: "char \<Rightarrow> string \<Rightarrow> string" where
  "rstrip c s = rev (dropWhile (\<lambda>x. x = c) (rev s))"

definition lstrip :: "char \<Rightarrow> string \<Rightarrow> string" where
  "lstrip c s = dropWhile (\<lambda>x. x = c) s"

text \<open>\<open>s.replace(c, "")\<close> for a one-character \<open>c\<close>.\<close>

definition remove_char :: "char \<Rightarrow> string \<Rightarrow> string" where
  "remove_char c s = filter (\<lambda>x. x \<noteq> c) s"

text \<open>\<open>s.split(sep)\<close> for a one-character separator: never an empty list.\<close>

fun split :: "char \<Rightarrow> string \<Rightarrow> string list" where
  "split sep [] = [[]]"
| "split sep (c # cs) =
     (if c = sep then [] # split sep cs
      else (case split sep cs of
              p # ps \<Rightarrow> (c # p) # ps
            | [] \<Rightarrow> [[c]]))"

definition digit_char :: "nat \<Rightarrow> char" where
  "digit_char d = ''0123456789'' ! d"

fun str_nat :: "nat \<Rightarrow> string" where
  "str_nat n = (if n < 10 then [digit_char n] else str_nat (n div 10) @ [digit_char (n mod 10)])"

declare str_nat.simps [simp del]

text \<open>\<open>str(i)\<close> and \<open>f"{i}"\<close> for an \<open>int\<close>: decimal, with a minus sign below zero.\<close>

definition str_int :: "int \<Rightarrow> string" where
  "str_int i = (if i < 0 then CHR ''-'' # str_nat (nat (- i)) else str_nat (nat i))"

text \<open>
  The number that a string of decimal digits denotes, from the accumulator on; \<open>None\<close>
  when a character is no digit.
\<close>

definition digit_value :: "char \<Rightarrow> nat option" where
  "digit_value c = map_of (zip ''0123456789'' [0, 1, 2, 3, 4, 5, 6, 7, 8, 9]) c"

fun nat_of_digits :: "nat \<Rightarrow> string \<Rightarrow> nat option" where
  "nat_of_digits acc [] = Some acc"
| "nat_of_digits acc (c # cs) =
     (case digit_value c of
        None \<Rightarrow> None
      | Some d \<Rightarrow> nat_of_digits (10 * acc + d) cs)"

text \<open>\<open>int(x)\<close> for a number: truncation towards zero.\<close>

definition int_trunc :: "rat \<Rightarrow> int" where
  "int_trunc x = (if 0 \<le> x then \<lfloor>x\<rfloor> else \<lceil>x\<rceil>)"

text \<open>\<open>d.update(other)\<close>.\<close>

definition dict_update :: "'v dict \<Rightarrow> 'v dict \<Rightarrow> 'v dict" where
  "dict_update d other = fold (\<lambda>(k, v). AList.update k v) other d"

section \<open>HttpClient.py\<close>

subsection \<open>HttpClientOption\<close>

record HttpClientOption =
  header :: "string dict"
  cookie :: "string dict"
  proxy_address :: "string option"
  socket_timeout :: "int option"
  connect_timeout :: "int option"
  ignore_ssl :: bool
  default_socket_timeout :: int
  default_connect_timeout :: int
  connection_request_timeout :: int

text \<open>
  \<open>HttpClientOption.__init__\<close>. Every argument is optional in the source; \<open>None\<close> is an
  argument left out (or passed as \<open>None\<close>). \<open>ignore_ssl\<close> left out is \<open>True\<close>. Header and
  cookie values are strings here (the clients pass strings, and \<open>str(v)\<close> is then \<open>v\<close>).
\<close>

definition HttpClientOption_init ::
  "string dict option \<Rightarrow> string dict option \<Rightarrow> string option \<Rightarrow> int option \<Rightarrow> int option
     \<Rightarrow> bool option \<Rightarrow> HttpClientOption" where
  "HttpClientOption_init header_arg cookie_arg proxy_arg socket_arg connect_arg ignore_arg =
     \<lparr> header = (case header_arg of None \<Rightarrow> [] | Some h \<Rightarrow> h),
       cookie = (case cookie_arg of None \<Rightarrow> [] | Some c \<Rightarrow> c),
       proxy_address = proxy_arg,
       socket_timeout = socket_arg,
       connect_timeout = connect_arg,
       ignore_ssl = (case ignore_arg of None \<Rightarrow> True | Some b \<Rightarrow> b),
       default_socket_timeout = 60,
       default_connect_timeout = 60,
       connection_request_timeout = 5 \<rparr>"

subsection \<open>HTTPResponse\<close>

text \<open>What \<open>requests\<close> hands back, and the wrapper built from it (timing left out).\<close>

record py_response =
  r_method :: string
  r_url :: string
  r_status_code :: int
  r_headers :: "string dict"
  r_content :: string

record HTTPResponse =
  request_method :: string
  request_url :: string
  status_code :: int
  headers :: "string dict"
  content :: string

definition text_of :: "pylib \<Rightarrow> HTTPResponse \<Rightarrow> string" where
  "text_of lib r = bytes_decode_ignore lib (content r)"

definition HTTPResponse_json :: "pylib \<Rightarrow> HTTPResponse \<Rightarrow> py_error + pyval" where
  "HTTPResponse_json lib r = json_loads lib (text_of lib r)"

subsection \<open>HttpClient\<close>

datatype adapter =
    IgnoreSSLAdapter
  | HTTPAdapter nat nat nat   \<comment> \<open>pool_connections, pool_maxsize, max_retries\<close>

text \<open>
  The fields of \<open>requests.Session\<close> that \<open>HttpClient.__init__\<close> writes. \<open>session_headers\<close>
  and \<open>session_cookies\<close> hold what the constructor added to the session's own defaults.
\<close>

record Session =
  session_headers :: "string dict"
  session_cookies :: "string dict"
  proxies :: "string dict"
  verify :: bool
  adapters :: "adapter dict"

definition new_Session :: Session where
  "new_Session = \<lparr> session_headers = [], session_cookies = [], proxies = [], verify = True,
                    adapters = [] \<rparr>"

record HttpClient =
  option :: HttpClientOption
  session :: Session

text \<open>The dict form of the constructor's argument: a field is \<open>None\<close> when the key is absent.\<close>

record OptionDict =
  d_header :: "string dict option"
  d_cookie :: "string dict option"
  d_proxy_address :: "string option"
  d_socket_timeout :: "int option"
  d_connect_timeout :: "int option"
  d_ignore_ssl :: "bool option"

datatype option_arg =
    NoOption
  | AsDict OptionDict
  | AsObject HttpClientOption

definition empty_OptionDict :: OptionDict where
  "empty_OptionDict = \<lparr> d_header = None, d_cookie = None, d_proxy_address = None,
      d_socket_timeout = None, d_connect_timeout = None, d_ignore_ssl = None \<rparr>"

definition option_of_dict :: "OptionDict \<Rightarrow> HttpClientOption" where
  "option_of_dict d =
     HttpClientOption_init (d_header d) (d_cookie d) (d_proxy_address d) (d_socket_timeout d)
       (d_connect_timeout d) (Some (case d_ignore_ssl d of None \<Rightarrow> True | Some b \<Rightarrow> b))"

text \<open>Lines 138 to 148: the proxy block, run only when \<open>proxy_address\<close> is truthy.\<close>

definition set_proxies :: "pylib \<Rightarrow> HttpClientOption \<Rightarrow> Session \<Rightarrow> py_error + Session" where
  "set_proxies lib opt s =
     (if truthy_str (proxy_address opt) then
        (case proxy_address opt of
           None \<Rightarrow> Inr s
         | Some addr \<Rightarrow>
            (let proxy_parts = split CHR '':'' addr in
             if length proxy_parts \<noteq> 2 then Inl (ValueError BadProxyAddress)
             else
               (let proxy_host = proxy_parts ! 0 in
                case int_of_str lib (proxy_parts ! 1) of
                  None \<Rightarrow> Inl (ValueError (InvalidIntLiteral (proxy_parts ! 1)))
                | Some proxy_port \<Rightarrow>
                    Inr (s\<lparr> proxies :=
                      [(''http'', ''http://'' @ proxy_host @ '':'' @ str_int proxy_port),
                       (''https'', ''http://'' @ proxy_host @ '':'' @ str_int proxy_port)] \<rparr>))))
      else Inr s)"

definition mount :: "string \<Rightarrow> adapter \<Rightarrow> Session \<Rightarrow> Session" where
  "mount prefix a s = s\<lparr> adapters := AList.update prefix a (adapters s) \<rparr>"

definition HttpClient_init :: "pylib \<Rightarrow> option_arg \<Rightarrow> py_error + HttpClient" where
  "HttpClient_init lib arg =
     (let opt = (case arg of
                   NoOption \<Rightarrow> option_of_dict empty_OptionDict
                 | AsDict d \<Rightarrow> option_of_dict d
                 | AsObject ob \<Rightarrow> ob);
          s0 = new_Session;
          s1 = (if header opt \<noteq> []
                then s0\<lparr> session_headers := dict_update (session_headers s0) (header opt) \<rparr>
                else s0);
          s2 = (if cookie opt \<noteq> []
                then s1\<lparr> session_cookies := dict_update (session_cookies s1) (cookie opt) \<rparr>
                else s1)
      in case set_proxies lib opt s2 of
           Inl e \<Rightarrow> Inl e
         | Inr s3 \<Rightarrow>
            (let s4 = s3\<lparr> verify := \<not> ignore_ssl opt \<rparr>;
                 s5 = (if ignore_ssl opt
                       then mount ''http://'' IgnoreSSLAdapter (mount ''https://'' IgnoreSSLAdapter s4)
                       else s4);
                 s6 = mount ''http://'' (HTTPAdapter 200 20 3)
                        (mount ''https://'' (HTTPAdapter 200 20 3) s5)
             in Inr \<lparr> option = opt, session = s6 \<rparr>))"

text \<open>
  \<open>_build_timeout\<close>: (connect, read) in seconds. \<open>x / 1000 if x else default\<close> takes the
  default when \<open>x\<close> is \<open>None\<close> and when it is 0. The quotient of a set timeout is taken
  exactly (the source rounds it to a float).
\<close>

definition HttpClient_build_timeout :: "HttpClient \<Rightarrow> rat \<times> rat" where
  "HttpClient_build_timeout self =
     (let connect_timeout_s =
            (if truthy_int (connect_timeout (option self))
             then (case connect_timeout (option self) of
                     Some n \<Rightarrow> of_int n / 1000
                   | None \<Rightarrow> of_int (default_connect_timeout (option self)))
             else of_int (default_connect_timeout (option self)));
          read_timeout_s =
            (if truthy_int (socket_timeout (option self))
             then (case socket_timeout (option self) of
                     Some n \<Rightarrow> of_int n / 1000
                   | None \<Rightarrow> of_int (default_socket_timeout (option self)))
             else of_int (default_socket_timeout (option self)))
      in (connect_timeout_s, read_timeout_s))"

text \<open>
  One call of \<open>self.session.get\<close>, \<open>.post\<close> or \<open>.request\<close>: its arguments. \<open>sc_data\<close> is
  the \<open>data=\<close> argument, a string sent as it is or a mapping that \<open>requests\<close> form-encodes;
  \<open>None\<close> is a call without \<open>data=\<close>, which sends no body.
\<close>

datatype payload =
    TextBody string
  | FormFields "pyval dict"

record session_call =
  sc_method :: string
  sc_url :: string
  sc_data :: "payload option"
  sc_headers :: "string dict option"
  sc_timeout :: "rat \<times> rat"

text \<open>The bytes of the request body that a \<open>data=\<close> argument puts on the wire.\<close>

definition wire_body :: "pylib \<Rightarrow> payload option \<Rightarrow> string" where
  "wire_body lib d =
     (case d of
        None \<Rightarrow> []
      | Some (TextBody s) \<Rightarrow> s
      | Some (FormFields form) \<Rightarrow> form_urlencode lib form)"

text \<open>
  The transport (\<open>requests\<close>): from the session and the call to a response or an exception.
  A client operation returns the calls it made, in order, and its result or exception.
\<close>

type_synonym transport = "Session \<Rightarrow> session_call \<Rightarrow> py_error + py_response"

type_synonym 'a io = "session_call list \<times> (py_error + 'a)"

definition HttpClient_build_response :: "py_response \<Rightarrow> HTTPResponse" where
  "HttpClient_build_response response =
     \<lparr> request_method = r_method response,
       request_url = r_url response,
       status_code = r_status_code response,
       headers = r_headers response,
       content = r_content response \<rparr>"

definition session_request :: "transport \<Rightarrow> HttpClient \<Rightarrow> session_call \<Rightarrow> HTTPResponse io" where
  "session_request send self call =
     ([call],
      case send (session self) call of
        Inl e \<Rightarrow> Inl e
      | Inr response \<Rightarrow> Inr (HttpClient_build_response response))"

definition HttpClient_get ::
  "transport \<Rightarrow> HttpClient \<Rightarrow> string \<Rightarrow> string dict option \<Rightarrow> HTTPResponse io" where
  "HttpClient_get send self url hdrs =
     (let timeout = HttpClient_build_timeout self
      in session_request send self
           \<lparr> sc_method = ''GET'', sc_url = url, sc_data = None, sc_headers = hdrs,
             sc_timeout = timeout \<rparr>)"

text \<open>\<open>if headers:\<close> is false for \<open>None\<close> and for an empty dict.\<close>

definition merge_headers :: "string dict \<Rightarrow> string dict option \<Rightarrow> string dict" where
  "merge_headers request_headers hdrs =
     (case hdrs of
        None \<Rightarrow> request_headers
      | Some h \<Rightarrow> if h \<noteq> [] then dict_update request_headers h else request_headers)"

definition HttpClient_post_json ::
  "pylib \<Rightarrow> transport \<Rightarrow> HttpClient \<Rightarrow> string \<Rightarrow> pyval \<Rightarrow> string dict option
     \<Rightarrow> HTTPResponse io" where
  "HttpClient_post_json lib send self url data hdrs =
     (let timeout = HttpClient_build_timeout self;
          request_headers =
            merge_headers [(''Content-Type'', ''application/json; charset=utf-8'')] hdrs;
          json_data = (case data of PyStr s \<Rightarrow> s | _ \<Rightarrow> json_dumps lib data)
      in session_request send self
           \<lparr> sc_method = ''POST'', sc_url = url, sc_data = Some (TextBody json_data),
             sc_headers = Some request_headers, sc_timeout = timeout \<rparr>)"

definition HttpClient_post_form ::
  "transport \<Rightarrow> HttpClient \<Rightarrow> string \<Rightarrow> pyval dict \<Rightarrow> string dict option
     \<Rightarrow> HTTPResponse io" where
  "HttpClient_post_form send self url data hdrs =
     (let timeout = HttpClient_build_timeout self;
          request_headers =
            merge_headers
              [(''Content-Type'', ''application/x-www-form-urlencoded; charset=UTF-8'')] hdrs
      in session_request send self
           \<lparr> sc_method = ''POST'', sc_url = url, sc_data = Some (FormFields data),
             sc_headers = Some request_headers, sc_timeout = timeout \<rparr>)"

section \<open>The block that closes every client operation\<close>

text \<open>
  Every operation of the three client classes ends with the same lines: raise on a status
  of 400 or more, else return \<open>response.json()\<close>, or \<open>response.text\<close> when that raises
  \<open>json.JSONDecodeError\<close>. Any other exception of \<open>json.loads\<close> is not caught.
\<close>

definition decode_response :: "pylib \<Rightarrow> HTTPResponse \<Rightarrow> py_error + pyval" where
  "decode_response lib response =
     (if status_code response \<ge> 400
      then Inl (Exception (''HTTP '' @ str_int (status_code response) @ '': '' @ text_of lib response))
      else (case HTTPResponse_json lib response of
              Inr v \<Rightarrow> Inr v
            | Inl JSONDecodeError \<Rightarrow> Inr (PyStr (text_of lib response))
            | Inl e \<Rightarrow> Inl e))"

definition then_decode :: "pylib \<Rightarrow> HTTPResponse io \<Rightarrow> pyval io" where
  "then_decode lib r =
     (fst r, case snd r of Inl e \<Rightarrow> Inl e | Inr response \<Rightarrow> decode_response lib response)"

text \<open>\<open>base_url.rstrip('/') + '/'\<close> and \<open>urljoin(self.base_url, url.lstrip('/'))\<close>.\<close>

definition normalize_base_url :: "string \<Rightarrow> string" where
  "normalize_base_url b = rstrip CHR ''/'' b @ ''/''"

text \<open>The two attributes that every client class has.\<close>

record api_client =
  base_url :: string
  client :: HttpClient

definition full_url_of :: "pylib \<Rightarrow> 'a api_client_scheme \<Rightarrow> string \<Rightarrow> string" where
  "full_url_of lib self url = urljoin lib (base_url self) (lstrip CHR ''/'' url)"

text \<open>A \<open>data\<close> argument of type \<open>Optional[Dict[str, Any]]\<close> as a Python value.\<close>

definition as_pyval :: "pyval dict option \<Rightarrow> pyval" where
  "as_pyval data = (case data of None \<Rightarrow> PyNone | Some d \<Rightarrow> PyDict d)"

section \<open>OpenAPIKeyClient.py\<close>

text \<open>
  \<open>OpenAPIKeyClient\<close> and \<open>OpenAPIKeyClientV2\<close> have the same attributes. The \<open>params\<close>
  argument of the operations is never read by the source and is left out.
\<close>

record OpenAPIKeyClient = api_client +
  api_key :: string
  api_secret :: string

subsection \<open>OpenAPIKeyClient (V1)\<close>

definition OpenAPIKeyClient_init ::
  "pylib \<Rightarrow> string \<Rightarrow> string \<Rightarrow> string \<Rightarrow> py_error + OpenAPIKeyClient" where
  "OpenAPIKeyClient_init lib base_url_arg api_key_arg api_secret_arg =
     (let opt = HttpClientOption_init (Some []) None None None None None
      in case HttpClient_init lib (AsObject opt) of
           Inl e \<Rightarrow> Inl e
         | Inr c \<Rightarrow>
             Inr \<lparr> base_url = normalize_base_url base_url_arg, client = c,
                   api_key = api_key_arg, api_secret = api_secret_arg \<rparr>)"

text \<open>
  \<open>_generate_signature\<close>. Its \<open>except\<close> clause turns a failure of \<open>encode\<close> or \<open>hmac\<close>
  into a RuntimeError; neither fails on a string of this model.
\<close>

definition OpenAPIKeyClient_generate_signature ::
  "pylib \<Rightarrow> OpenAPIKeyClient \<Rightarrow> string \<Rightarrow> string" where
  "OpenAPIKeyClient_generate_signature lib self txt =
     hmac_sha256_hexdigest lib (api_secret self) txt"

text \<open>
  \<open>_build_auth_headers\<close>. \<open>time.time() * 1000\<close> is a product of floats, rounded to a
  float before \<open>int\<close> truncates it.
\<close>

definition OpenAPIKeyClient_build_auth_headers ::
  "pylib \<Rightarrow> world \<Rightarrow> OpenAPIKeyClient \<Rightarrow> string \<Rightarrow> string dict" where
  "OpenAPIKeyClient_build_auth_headers lib w self request_body =
     (let timestamp = str_int (int_trunc (float_mul lib (time_time w) 1000));
          nonce = remove_char CHR ''-'' (uuid4_str w);
          sign_text = api_key self @ timestamp @ nonce @ request_body;
          signature = OpenAPIKeyClient_generate_signature lib self sign_text
      in AList.update ''Content-Type'' ''application/json''
          (AList.update ''X-Signature'' signature
            (AList.update ''X-Nonce'' nonce
              (AList.update ''X-Timestamp'' timestamp
                (AList.update ''X-Api-Key'' (api_key self) [])))))"

definition OpenAPIKeyClient_get ::
  "pylib \<Rightarrow> transport \<Rightarrow> world \<Rightarrow> OpenAPIKeyClient \<Rightarrow> string \<Rightarrow> pyval io" where
  "OpenAPIKeyClient_get lib send w self url =
     (let full_url = full_url_of lib self url;
          request_body = [];
          auth_headers = OpenAPIKeyClient_build_auth_headers lib w self request_body
      in then_decode lib (HttpClient_get send (client self) full_url (Some auth_headers)))"


definition OpenAPIKeyClient_post_form ::
  "pylib \<Rightarrow> transport \<Rightarrow> world \<Rightarrow> OpenAPIKeyClient \<Rightarrow> string \<Rightarrow> pyval dict \<Rightarrow> pyval io" where
  "OpenAPIKeyClient_post_form lib send w self url data =
     (let full_url = full_url_of lib self url;
          request_body = json_dumps lib (PyDict data);
          auth_headers = OpenAPIKeyClient_build_auth_headers lib w self request_body
      in then_decode lib
           (HttpClient_post_form send (client self) full_url data (Some auth_headers)))"

subsection \<open>OpenAPIKeyClientV2\<close>

text \<open>
  \<open>__init__\<close>, with \<open>timeout\<close>, \<open>verify_ssl\<close> and \<open>proxy\<close> given by the caller (the source's
  defaults are 30, \<open>True\<close> and \<open>None\<close>).
\<close>

definition OpenAPIKeyClientV2_init ::
  "pylib \<Rightarrow> string \<Rightarrow> string \<Rightarrow> string \<Rightarrow> int option \<Rightarrow> bool \<Rightarrow> string option
     \<Rightarrow> py_error + OpenAPIKeyClient" where
  "OpenAPIKeyClientV2_init lib base_url_arg api_key_arg api_secret_arg timeout verify_ssl proxy =
     (let hdrs = [(''User-Agent'', ''OpenAPI-Python-Client/1.0''), (''Accept'', ''application/json'')];
          opt = HttpClientOption_init (Some hdrs) None proxy
                  (if truthy_int timeout then map_option (\<lambda>t. t * 1000) timeout else None)
                  (if truthy_int timeout then map_option (\<lambda>t. t * 1000) timeout else None)
                  (Some (\<not> verify_ssl))
      in case HttpClient_init lib (AsObject opt) of
           Inl e \<Rightarrow> Inl e
         | Inr c \<Rightarrow>
             Inr \<lparr> base_url = normalize_base_url base_url_arg, client = c,
                   api_key = api_key_arg, api_secret = api_secret_arg \<rparr>)"

text \<open>\<open>_generate_signature_v2\<close>: \<open>body_hash\<close>, \<open>sign_text\<close> and the signature.\<close>

definition body_hash_v2 :: "pylib \<Rightarrow> string \<Rightarrow> string" where
  "body_hash_v2 lib body = (if body \<noteq> [] then sha256_hexdigest lib body else [])"

definition sign_text_v2 ::
  "pylib \<Rightarrow> OpenAPIKeyClient \<Rightarrow> string \<Rightarrow> string \<Rightarrow> string \<Rightarrow> string \<Rightarrow> string \<Rightarrow> string" where
  "sign_text_v2 lib self method pth timestamp nonce body =
     str_upper lib method @ pth @ api_key self @ timestamp @ nonce @ body_hash_v2 lib body"

definition OpenAPIKeyClientV2_generate_signature_v2 ::
  "pylib \<Rightarrow> OpenAPIKeyClient \<Rightarrow> string \<Rightarrow> string \<Rightarrow> string \<Rightarrow> string \<Rightarrow> string \<Rightarrow> string" where
  "OpenAPIKeyClientV2_generate_signature_v2 lib self method pth timestamp nonce body =
     hmac_sha256_hexdigest lib (api_secret self)
       (sign_text_v2 lib self method pth timestamp nonce body)"

definition OpenAPIKeyClientV2_build_auth_headers_v2 ::
  "pylib \<Rightarrow> world \<Rightarrow> OpenAPIKeyClient \<Rightarrow> string \<Rightarrow> string \<Rightarrow> string \<Rightarrow> string dict" where
  "OpenAPIKeyClientV2_build_auth_headers_v2 lib w self method pth body =
     (let timestamp = str_int (int_trunc (time_time w));
          nonce = remove_char CHR ''-'' (uuid4_str w);
          signature = OpenAPIKeyClientV2_generate_signature_v2 lib self method pth timestamp nonce body
      in AList.update ''Content-Type'' ''application/json''
          (AList.update ''X-Signature'' signature
            (AList.update ''X-Nonce'' nonce
              (AList.update ''X-Timestamp'' timestamp
                (AList.update ''X-Api-Key'' (api_key self) [])))))"

text \<open>
  The names that the module OpenAPIKeyClient.py binds: its imports (lines 2 to 11) and
  its two classes. A function body that reads any other global name, one that is no
  builtin either, raises NameError when the line runs.
\<close>

definition OpenAPIKeyClient_globals :: "string list" where
  "OpenAPIKeyClient_globals =
     [''json'', ''hashlib'', ''hmac'', ''time'', ''uuid'', ''Dict'', ''Any'', ''Optional'',
      ''urljoin'', ''HttpClient'', ''HttpClientOption'', ''OpenAPIKeyClient'',
      ''OpenAPIKeyClientV2'']"

definition load_global :: "string list \<Rightarrow> string \<Rightarrow> 'a \<Rightarrow> py_error + 'a" where
  "load_global globals name v = (if name \<in> set globals then Inr v else Inl (NameError name))"

text \<open>
  \<open>request\<close>, lines 346 to 378: from the signed path on. \<open>auth_headers\<close> is built before
  the method is looked at.
\<close>

definition OpenAPIKeyClientV2_request_rest ::
  "pylib \<Rightarrow> transport \<Rightarrow> world \<Rightarrow> OpenAPIKeyClient \<Rightarrow> string \<Rightarrow> string \<Rightarrow> string
     \<Rightarrow> pyval dict option \<Rightarrow> pyval io" where
  "OpenAPIKeyClientV2_request_rest lib send w self method full_url pth data =
     (let request_body = (case data of None \<Rightarrow> [] | Some d \<Rightarrow> json_dumps lib (PyDict d));
          auth_headers = OpenAPIKeyClientV2_build_auth_headers_v2 lib w self method pth request_body
      in if str_upper lib method = ''GET'' then
           then_decode lib (HttpClient_get send (client self) full_url (Some auth_headers))
         else if str_upper lib method = ''POST'' then
           then_decode lib
             (HttpClient_post_json lib send (client self) full_url (as_pyval data) (Some auth_headers))
         else if str_upper lib method = ''PUT'' then
           then_decode lib
             (HttpClient_post_json lib send (client self) full_url (as_pyval data) (Some auth_headers))
         else if str_upper lib method = ''DELETE'' then
           then_decode lib (HttpClient_get send (client self) full_url (Some auth_headers))
         else ([], Inl (ValueError (UnsupportedMethod method))))"

text \<open>
  \<open>request\<close>, lines 337 to 344, then the rest. Line 341 reads the global \<open>urlparse\<close>,
  which the module never imports (line 8 imports \<open>urljoin\<close> only).
\<close>

definition OpenAPIKeyClientV2_request ::
  "pylib \<Rightarrow> transport \<Rightarrow> world \<Rightarrow> OpenAPIKeyClient \<Rightarrow> string \<Rightarrow> string
     \<Rightarrow> pyval dict option \<Rightarrow> pyval io" where
  "OpenAPIKeyClientV2_request lib send w self method url data =
     (let full_url = full_url_of lib self url
      in case load_global OpenAPIKeyClient_globals ''urlparse'' (urlparse lib) of
           Inl e \<Rightarrow> ([], Inl e)
         | Inr urlparse_fn \<Rightarrow>
            (let parsed_url = urlparse_fn full_url;
                 pth = (if query parsed_url \<noteq> []
                        then path parsed_url @ ''?'' @ query parsed_url
                        else path parsed_url)
             in OpenAPIKeyClientV2_request_rest lib send w self method full_url pth data))"

section \<open>OpenAPITokenClient.py\<close>

record OpenAPITokenClient = api_client +
  token :: string

record OpenAPITokenClientV2 = OpenAPITokenClient +
  auth_header_name :: string
  auth_header_format :: string

definition OpenAPITokenClient_init ::
  "pylib \<Rightarrow> string \<Rightarrow> string \<Rightarrow> py_error + OpenAPITokenClient" where
  "OpenAPITokenClient_init lib base_url_arg token_arg =
     (let opt = HttpClientOption_init (Some [(''token'', token_arg)]) None None None None None
      in case HttpClient_init lib (AsObject opt) of
           Inl e \<Rightarrow> Inl e
         | Inr c \<Rightarrow>
             Inr \<lparr> base_url = normalize_base_url base_url_arg, client = c, token = token_arg \<rparr>)"




definition OpenAPITokenClient_put ::
  "pylib \<Rightarrow> transport \<Rightarrow> 'a OpenAPITokenClient_scheme \<Rightarrow> string \<Rightarrow> pyval dict \<Rightarrow> pyval io" where
  "OpenAPITokenClient_put lib send self url data =
     (let full_url = full_url_of lib self url;
          hdrs = [(''X-HTTP-Method-Override'', ''PUT'')]
      in then_decode lib
           (HttpClient_post_json lib send (client self) full_url (PyDict data) (Some hdrs)))"

definition OpenAPITokenClient_delete ::
  "pylib \<Rightarrow> transport \<Rightarrow> 'a OpenAPITokenClient_scheme \<Rightarrow> string \<Rightarrow> pyval io" where
  "OpenAPITokenClient_delete lib send self url =
     (let full_url = full_url_of lib self url;
          hdrs = [(''X-HTTP-Method-Override'', ''DELETE'')]
      in then_decode lib (HttpClient_get send (client self) full_url (Some hdrs)))"

text \<open>\<open>OpenAPITokenClientV2.request\<close>; \<open>data or {}\<close> is \<open>{}\<close> for \<open>None\<close> and for an empty dict.\<close>

definition OpenAPITokenClientV2_request ::
  "pylib \<Rightarrow> transport \<Rightarrow> OpenAPITokenClientV2 \<Rightarrow> string \<Rightarrow> string \<Rightarrow> pyval dict option
     \<Rightarrow> pyval io" where
  "OpenAPITokenClientV2_request lib send self method url data =
     (let full_url = full_url_of lib self url;
          data_or_empty = (if truthy (as_pyval data) then as_pyval data else PyDict [])
      in if str_upper lib method = ''GET'' then
           then_decode lib (HttpClient_get send (client self) full_url None)
         else if str_upper lib method = ''POST'' then
           then_decode lib (HttpClient_post_json lib send (client self) full_url data_or_empty None)
         else if str_upper lib method = ''PUT'' then
           then_decode lib
             (HttpClient_post_json lib send (client self) full_url data_or_empty
                (Some [(''X-HTTP-Method-Override'', ''PUT'')]))
         else if str_upper lib method = ''DELETE'' then
           then_decode lib
             (HttpClient_get send (client self) full_url
                (Some [(''X-HTTP-Method-Override'', ''DELETE'')]))
         else ([], Inl (ValueError (UnsupportedMethod method))))"

section \<open>A sample library, clock, transport and clients for the concrete examples\<close>

text \<open>
  The general theorems hold for every library. The examples need one: \<open>sample_lib\<close>
  gives the library functions at the arguments that the examples use (with the values
  Python computes there), and is a stand-in elsewhere. Its HMAC spells out the key and
  the message it was given instead of digesting them. Its float product is exact but for
  4.35 * 1000: the float 4.35 is 2448832297382707 / 2 ^ 49, just below 4.35, and its
  product with 1000 rounds up to 4350. Its \<open>json.loads\<close> refuses a number of 4301 digits
  with the ValueError of CPython's limit of 4300 digits.
\<close>

definition ascii_upper :: "string \<Rightarrow> string" where
  "ascii_upper s =
     map (\<lambda>c. case map_of (zip ''abcdefghijklmnopqrstuvwxyz'' ''ABCDEFGHIJKLMNOPQRSTUVWXYZ'') c of
                 None \<Rightarrow> c
               | Some u \<Rightarrow> u) s"

definition decimal_int_of_str :: "string \<Rightarrow> int option" where
  "decimal_int_of_str s =
     (case s of
        [] \<Rightarrow> None
      | c # cs \<Rightarrow>
          if c = CHR ''-''
          then (if cs = [] then None else map_option (\<lambda>n. - int n) (nat_of_digits 0 cs))
          else map_option int (nat_of_digits 0 s))"

text \<open>A JSON number of 4301 digits.\<close>

definition long_number :: string where
  "long_number = replicate 4301 CHR ''1''"

definition sample_lib :: pylib where
  \<open>sample_lib =
     \<lparr> str_upper = ascii_upper,
       int_of_str = decimal_int_of_str,
       bytes_decode_ignore = (\<lambda>b. b),
       sha256_hexdigest = (\<lambda>b.
         if b = [] then ''e3b0c44298fc1c149afbf4c8996fb92427ae41e4649b934ca495991b7852b855''
         else if b = ''{"a": 1}''
         then ''f9d86028c6e0d64e225186f96acb69338b2c59764df79162107f5c4bb34d1310''
         else replicate 64 CHR ''0''),
       hmac_sha256_hexdigest = (\<lambda>k m. ''hmac-sha256('' @ k @ '', '' @ m @ '')''),
       json_dumps = (\<lambda>v.
         if v = PyDict [(''a'', PyInt 1)] then ''{"a": 1}''
         else if v = PyDict [] then ''{}''
         else ''null''),
       json_loads = (\<lambda>s.
         if s = ''{"a":1}'' then Inr (PyDict [(''a'', PyInt 1)])
         else if s = long_number then Inl (ValueError IntDigitsLimitExceeded)
         else Inl JSONDecodeError),
       float_mul = (\<lambda>a b.
         if a = 2448832297382707 / 562949953421312 \<and> b = 1000 then 4350 else a * b),
       urljoin = (\<lambda>b u. b @ u),
       urlparse = (\<lambda>u.
         if u = ''https://api.example.com/users?page=2''
         then \<lparr> path = ''/users'', query = ''page=2'' \<rparr>
         else \<lparr> path = ''/'', query = [] \<rparr>),
       form_urlencode = (\<lambda>d. if d = [(''a'', PyInt 1)] then ''a=1'' else []) \<rparr>\<close>

definition sample_world :: world where
  "sample_world =
     \<lparr> time_time = 3400000001 / 2, uuid4_str = ''123e4567-e89b-42d3-a456-426614174000'' \<rparr>"


definition sample_send :: "int \<Rightarrow> string \<Rightarrow> transport" where
  "sample_send status body =
     (\<lambda>s call. Inr \<lparr> r_method = sc_method call, r_url = sc_url call, r_status_code = status,
                      r_headers = [], r_content = body \<rparr>)"

definition sample_http_client :: HttpClient where
  "sample_http_client =
     \<lparr> option = HttpClientOption_init (Some []) None None None None None,
       session = new_Session\<lparr> verify := False,
                   adapters := [(''https://'', HTTPAdapter 200 20 3), (''http://'', HTTPAdapter 200 20 3)] \<rparr> \<rparr>"

definition sample_key_client :: OpenAPIKeyClient where
  "sample_key_client =
     \<lparr> base_url = ''https://api.example.com/'', client = sample_http_client,
       api_key = ''KEY'', api_secret = ''SECRET'' \<rparr>"

text \<open>What \<open>OpenAPIKeyClientV2("https://api.example.com", "KEY", "SECRET")\<close> builds.\<close>

definition sample_http_client_v2 :: HttpClient where
  "sample_http_client_v2 =
     \<lparr> option = HttpClientOption_init
         (Some [(''User-Agent'', ''OpenAPI-Python-Client/1.0''), (''Accept'', ''application/json'')])
         None None (Some 30000) (Some 30000) (Some False),
       session = new_Session\<lparr>
         session_headers := [(''User-Agent'', ''OpenAPI-Python-Client/1.0''),
                             (''Accept'', ''application/json'')],
         verify := True,
         adapters := [(''https://'', HTTPAdapter 200 20 3), (''http://'', HTTPAdapter 200 20 3)] \<rparr> \<rparr>"

definition sample_key_client_v2 :: OpenAPIKeyClient where
  "sample_key_client_v2 =
     \<lparr> base_url = ''https://api.example.com/'', client = sample_http_client_v2,
       api_key = ''KEY'', api_secret = ''SECRET'' \<rparr>"

text \<open>What \<open>OpenAPITokenClient("https://api.example.com", "TOKEN")\<close> builds.\<close>

definition sample_token_http_client :: HttpClient where
  "sample_token_http_client =
     \<lparr> option = HttpClientOption_init (Some [(''token'', ''TOKEN'')]) None None None None None,
       session = new_Session\<lparr>
         session_headers := [(''token'', ''TOKEN'')],
         verify := False,
         adapters := [(''https://'', HTTPAdapter 200 20 3), (''http://'', HTTPAdapter 200 20 3)] \<rparr> \<rparr>"

definition sample_token_client :: OpenAPITokenClient where
  "sample_token_client =
     \<lparr> base_url = ''https://api.example.com/'', client = sample_token_http_client,
       token = ''TOKEN'' \<rparr>"

text \<open>
  An \<open>OpenAPITokenClientV2\<close> with the constructor's default header name and format (its
  constructor is not modelled; the operations read \<open>base_url\<close> and \<open>client\<close> only).
\<close>

definition sample_token_client_v2 :: OpenAPITokenClientV2 where
  "sample_token_client_v2 =
     \<lparr> base_url = ''https://api.example.com/'', client = sample_token_http_client,
       token = ''TOKEN'', auth_header_name = ''Authorization'',
       auth_header_format = ''Bearer {}'' \<rparr>"

section \<open>Auxiliary notions for the proofs\<close>


section \<open>Basic facts\<close>

lemma split_never_empty: "split sep s \<noteq> []"
  by (induction s) (auto split: list.splits)

lemma length_two_iff: "length xs = 2 \<longleftrightarrow> (\<exists>a b. xs = [a, b])"
  by (cases xs; cases "tl xs"; auto)

lemma HttpClient_init_option:
  "HttpClient_init lib arg = Inr self \<Longrightarrow>
     option self = (case arg of NoOption \<Rightarrow> option_of_dict empty_OptionDict
                    | AsDict d \<Rightarrow> option_of_dict d | AsObject ob \<Rightarrow> ob)"
  by (auto simp: HttpClient_init_def Let_def split: sum.splits)

lemma HttpClient_init_verify:
  "HttpClient_init lib arg = Inr self \<Longrightarrow> verify (session self) = (\<not> ignore_ssl (option self))"
  by (auto simp: HttpClient_init_def Let_def mount_def split: sum.splits)















lemma sample_int_of_str:
  "int_of_str sample_lib ''8080'' = Some 8080" "int_of_str sample_lib ''0'' = Some 0"
  "int_of_str sample_lib ''-1'' = Some (- 1)"
  by (simp_all add: sample_lib_def decimal_int_of_str_def digit_value_def)

lemma str_int_samples:
  "str_int 0 = ''0''" "str_int 200 = ''200''" "str_int 404 = ''404''" "str_int 8080 = ''8080''"
  "str_int (- 1) = ''-1''" "str_int 4350 = ''4350''" "str_int 1700000000 = ''1700000000''"
  "str_int 1700000000500 = ''1700000000500''"
  by (simp_all add: str_int_def str_nat.simps digit_char_def)

lemma HttpClient_init_NoOption: "HttpClient_init lib NoOption = Inr sample_http_client"
  by (simp add: HttpClient_init_def option_of_dict_def empty_OptionDict_def HttpClientOption_init_def
      sample_http_client_def set_proxies_def new_Session_def mount_def Let_def)

lemma sample_clients_are_constructed:
  "OpenAPIKeyClient_init lib ''https://api.example.com'' ''KEY'' ''SECRET'' = Inr sample_key_client"
  "OpenAPIKeyClientV2_init lib ''https://api.example.com'' ''KEY'' ''SECRET'' (Some 30) True None
     = Inr sample_key_client_v2"
  "OpenAPITokenClient_init lib ''https://api.example.com'' ''TOKEN'' = Inr sample_token_client"
  by (simp_all add: OpenAPIKeyClient_init_def OpenAPIKeyClientV2_init_def OpenAPITokenClient_init_def
      HttpClient_init_def HttpClientOption_init_def set_proxies_def new_Session_def mount_def
      dict_update_def Let_def normalize_base_url_def rstrip_def
      sample_key_client_def sample_key_client_v2_def sample_token_client_def
      sample_http_client_def sample_http_client_v2_def sample_token_http_client_def)

lemma set_proxies_cases:
  assumes "proxy_address opt = Some addr" and "addr \<noteq> []"
  shows "set_proxies lib opt s =
           (case split CHR '':'' addr of
              [h, p] \<Rightarrow>
                (case int_of_str lib p of
                   None \<Rightarrow> Inl (ValueError (InvalidIntLiteral p))
                 | Some n \<Rightarrow>
                     Inr (s\<lparr> proxies := [(''http'', ''http://'' @ h @ '':'' @ str_int n),
                                         (''https'', ''http://'' @ h @ '':'' @ str_int n)] \<rparr>))
            | _ \<Rightarrow> Inl (ValueError BadProxyAddress))"
  using assms
  by (auto simp: set_proxies_def Let_def length_two_iff split: list.splits option.splits)

lemma HttpClient_init_proxies:
  "HttpClient_init lib (AsObject opt) =
     (case set_proxies lib opt
             (let s0 = new_Session;
                  s1 = (if header opt \<noteq> []
                        then s0\<lparr> session_headers := dict_update (session_headers s0) (header opt) \<rparr>
                        else s0)
              in if cookie opt \<noteq> []
                 then s1\<lparr> session_cookies := dict_update (session_cookies s1) (cookie opt) \<rparr>
                 else s1) of
        Inl e \<Rightarrow> Inl e
      | Inr s3 \<Rightarrow>
          Inr \<lparr> option = opt,
                session = (let s4 = s3\<lparr> verify := \<not> ignore_ssl opt \<rparr>;
                 s5 = (if ignore_ssl opt
                       then mount ''http://'' IgnoreSSLAdapter (mount ''https://'' IgnoreSSLAdapter s4)
                       else s4)
                  in mount ''http://'' (HTTPAdapter 200 20 3)
                        (mount ''https://'' (HTTPAdapter 200 20 3) s5)) \<rparr>)"
  by (simp add: HttpClient_init_def Let_def split: sum.splits)

section \<open>Transport configuration\<close>

text \<open>
  Claim C7. For a client built by \<open>HttpClient.__init__\<close> from no option, from a dict, or
  from an option object that \<open>HttpClientOption.__init__\<close> made: when \<open>socket_timeout\<close> is
  unset the read timeout of \<open>_build_timeout\<close> is 60 seconds (60000 ms), when
  \<open>connect_timeout\<close> is unset the connect timeout is 60 seconds, and every request of the
  client passes exactly that pair as \<open>timeout=\<close>. When \<open>ignore_ssl\<close> is not given it is
  \<open>True\<close>, and the session then does not verify certificates.
\<close>

theorem unset_timeout_is_60_seconds_and_ignore_ssl_defaults_true:
  assumes "HttpClient_init lib arg = Inr self"
    and "arg = NoOption \<or> arg = AsDict d \<or> arg = AsObject (HttpClientOption_init h c p st ct ig)"
  shows "(socket_timeout (option self) = None \<longrightarrow>
            snd (HttpClient_build_timeout self) = 60 \<and> snd (HttpClient_build_timeout self) * 1000 = 60000) \<and>
         (connect_timeout (option self) = None \<longrightarrow>
            fst (HttpClient_build_timeout self) = 60 \<and> fst (HttpClient_build_timeout self) * 1000 = 60000) \<and>
         ((arg = NoOption \<or> (arg = AsDict d \<and> d_ignore_ssl d = None) \<or>
           (arg = AsObject (HttpClientOption_init h c p st ct ig) \<and> ig = None)) \<longrightarrow>
            ignore_ssl (option self) \<and> \<not> verify (session self)) \<and>
         map sc_timeout (fst (HttpClient_get send self url hdrs)) = [HttpClient_build_timeout self] \<and>
         map sc_timeout (fst (HttpClient_post_json lib send self url body hdrs)) = [HttpClient_build_timeout self] \<and>
         map sc_timeout (fst (HttpClient_post_form send self url form hdrs)) = [HttpClient_build_timeout self]"
proof -
  have opt: "option self = option_of_dict empty_OptionDict \<or> option self = option_of_dict d
               \<or> option self = HttpClientOption_init h c p st ct ig"
    using assms HttpClient_init_option [OF assms(1)] by auto
  then have defaults: "default_socket_timeout (option self) = 60"
    "default_connect_timeout (option self) = 60"
    by (auto simp: option_of_dict_def HttpClientOption_init_def)
  have read: "socket_timeout (option self) = None \<longrightarrow> snd (HttpClient_build_timeout self) = 60"
    using defaults by (simp add: HttpClient_build_timeout_def)
  have conn: "connect_timeout (option self) = None \<longrightarrow> fst (HttpClient_build_timeout self) = 60"
    using defaults by (simp add: HttpClient_build_timeout_def)
  have ssl: "(arg = NoOption \<or> (arg = AsDict d \<and> d_ignore_ssl d = None) \<or>
           (arg = AsObject (HttpClientOption_init h c p st ct ig) \<and> ig = None)) \<longrightarrow>
            ignore_ssl (option self) \<and> \<not> verify (session self)"
    using HttpClient_init_option [OF assms(1)] HttpClient_init_verify [OF assms(1)]
    by (auto simp: option_of_dict_def HttpClientOption_init_def empty_OptionDict_def)
  have calls: "map sc_timeout (fst (HttpClient_get send self url hdrs)) = [HttpClient_build_timeout self]"
    "map sc_timeout (fst (HttpClient_post_json lib send self url body hdrs)) = [HttpClient_build_timeout self]"
    "map sc_timeout (fst (HttpClient_post_form send self url form hdrs)) = [HttpClient_build_timeout self]"
    by (simp_all add: HttpClient_get_def HttpClient_post_json_def HttpClient_post_form_def
        session_request_def Let_def)
  from read conn ssl calls show ?thesis by simp
qed

theorem unset_timeout_witness:
  "HttpClient_init sample_lib NoOption = Inr sample_http_client \<and>
   socket_timeout (option sample_http_client) = None \<and>
   connect_timeout (option sample_http_client) = None \<and>
   HttpClient_build_timeout sample_http_client = (60, 60) \<and>
   ignore_ssl (option sample_http_client) \<and> \<not> verify (session sample_http_client) \<and>
   map sc_timeout (fst (HttpClient_get (sample_send 200 []) sample_http_client ''https://api.example.com/users'' None))
     = [(60, 60)]"
proof -
  have i: "HttpClient_init sample_lib NoOption = Inr sample_http_client"
    by (rule HttpClient_init_NoOption)
  have n: "socket_timeout (option sample_http_client) = None"
    "connect_timeout (option sample_http_client) = None"
    by (simp_all add: sample_http_client_def HttpClientOption_init_def)
  from unset_timeout_is_60_seconds_and_ignore_ssl_defaults_true
    [where lib = sample_lib and arg = NoOption and self = sample_http_client
       and send = "sample_send 200 []" and url = "''https://api.example.com/users''"
       and hdrs = None and d = empty_OptionDict and h = None and c = None and p = None
       and st = None and ct = None and ig = None]
  show ?thesis using i n by (simp add: prod_eq_iff)
qed

text \<open>
  Claim C10. A timeout of 0 is read as unset: \<open>_build_timeout\<close> gives the same pair for
  \<open>Some 0\<close> as for \<open>None\<close> (60 seconds for an option that the constructor made), and so
  every request method issues the same call for both.
\<close>

theorem zero_timeout_is_read_as_unset:
  "HttpClient_build_timeout (self\<lparr>option := (option self)\<lparr>socket_timeout := Some 0\<rparr>\<rparr>)
     = HttpClient_build_timeout (self\<lparr>option := (option self)\<lparr>socket_timeout := None\<rparr>\<rparr>) \<and>
   HttpClient_build_timeout (self\<lparr>option := (option self)\<lparr>connect_timeout := Some 0\<rparr>\<rparr>)
     = HttpClient_build_timeout (self\<lparr>option := (option self)\<lparr>connect_timeout := None\<rparr>\<rparr>) \<and>
   snd (HttpClient_build_timeout \<lparr>option = HttpClientOption_init h c p (Some 0) ct ig, session = s\<rparr>) = 60 \<and>
   fst (HttpClient_build_timeout \<lparr>option = HttpClientOption_init h c p st (Some 0) ig, session = s\<rparr>) = 60 \<and>
   HttpClient_get send (self\<lparr>option := (option self)\<lparr>socket_timeout := Some 0\<rparr>\<rparr>) url hdrs
     = HttpClient_get send (self\<lparr>option := (option self)\<lparr>socket_timeout := None\<rparr>\<rparr>) url hdrs \<and>
   HttpClient_post_json lib send (self\<lparr>option := (option self)\<lparr>socket_timeout := Some 0\<rparr>\<rparr>) url body hdrs
     = HttpClient_post_json lib send (self\<lparr>option := (option self)\<lparr>socket_timeout := None\<rparr>\<rparr>) url body hdrs \<and>
   HttpClient_post_form send (self\<lparr>option := (option self)\<lparr>socket_timeout := Some 0\<rparr>\<rparr>) url form hdrs
     = HttpClient_post_form send (self\<lparr>option := (option self)\<lparr>socket_timeout := None\<rparr>\<rparr>) url form hdrs \<and>
   HttpClient_get send (self\<lparr>option := (option self)\<lparr>connect_timeout := Some 0\<rparr>\<rparr>) url hdrs
     = HttpClient_get send (self\<lparr>option := (option self)\<lparr>connect_timeout := None\<rparr>\<rparr>) url hdrs \<and>
   HttpClient_post_json lib send (self\<lparr>option := (option self)\<lparr>connect_timeout := Some 0\<rparr>\<rparr>) url body hdrs
     = HttpClient_post_json lib send (self\<lparr>option := (option self)\<lparr>connect_timeout := None\<rparr>\<rparr>) url body hdrs \<and>
   HttpClient_post_form send (self\<lparr>option := (option self)\<lparr>connect_timeout := Some 0\<rparr>\<rparr>) url form hdrs
     = HttpClient_post_form send (self\<lparr>option := (option self)\<lparr>connect_timeout := None\<rparr>\<rparr>) url form hdrs"
  by (simp add: HttpClient_build_timeout_def HttpClientOption_init_def HttpClient_get_def
      HttpClient_post_json_def HttpClient_post_form_def session_request_def Let_def
      split: option.splits)

text \<open>
  Claim C6, as the code has it. With a non-empty \<open>proxy_address\<close>, construction succeeds
  exactly when the string splits at \<open>:\<close> into two parts and \<open>int\<close> accepts the second;
  the proxies are then built from the first part and the integer. Otherwise it raises
  ValueError, as it does for \<open>onlyhost\<close> whatever the library. Nothing looks at the sign
  of the port. An empty \<open>proxy_address\<close> is passed over like an absent one: construction
  succeeds and sets no proxy.
\<close>

theorem proxy_address_accepted_iff_two_parts_and_int_port:
  assumes "proxy_address opt = Some addr" and "addr \<noteq> []"
  shows "(case HttpClient_init lib (AsObject opt) of
            Inl e \<Rightarrow>
              (length (split CHR '':'' addr) \<noteq> 2 \<and> e = ValueError BadProxyAddress) \<or>
              (\<exists>h p. split CHR '':'' addr = [h, p] \<and> int_of_str lib p = None \<and>
                     e = ValueError (InvalidIntLiteral p))
          | Inr self \<Rightarrow>
              (\<exists>h p n. split CHR '':'' addr = [h, p] \<and> int_of_str lib p = Some n \<and>
                 proxies (session self) =
                   [(''http'', ''http://'' @ h @ '':'' @ str_int n),
                    (''https'', ''http://'' @ h @ '':'' @ str_int n)])) \<and>
         HttpClient_init lib (AsObject (opt\<lparr>proxy_address := Some ''onlyhost''\<rparr>))
           = Inl (ValueError BadProxyAddress) \<and>
         map_sum id (\<lambda>self. proxies (session self))
             (HttpClient_init lib (AsObject (opt\<lparr>proxy_address := Some []\<rparr>)))
           = Inr [] \<and>
         map_sum id (\<lambda>self. proxies (session self))
             (HttpClient_init lib (AsObject (opt\<lparr>proxy_address := None\<rparr>)))
           = Inr []"
proof -
  have a: "(case HttpClient_init lib (AsObject opt) of
            Inl e \<Rightarrow>
              (length (split CHR '':'' addr) \<noteq> 2 \<and> e = ValueError BadProxyAddress) \<or>
              (\<exists>h p. split CHR '':'' addr = [h, p] \<and> int_of_str lib p = None \<and>
                     e = ValueError (InvalidIntLiteral p))
          | Inr self \<Rightarrow>
              (\<exists>h p n. split CHR '':'' addr = [h, p] \<and> int_of_str lib p = Some n \<and>
                 proxies (session self) =
                   [(''http'', ''http://'' @ h @ '':'' @ str_int n),
                    (''https'', ''http://'' @ h @ '':'' @ str_int n)]))"
    unfolding HttpClient_init_proxies set_proxies_cases [OF assms]
    by (auto simp: Let_def mount_def length_two_iff split: list.splits option.splits sum.splits)
  have b: "HttpClient_init lib (AsObject (opt\<lparr>proxy_address := Some ''onlyhost''\<rparr>))
           = Inl (ValueError BadProxyAddress)"
    unfolding HttpClient_init_proxies
    by (simp add: set_proxies_def Let_def)
  have c: "map_sum id (\<lambda>self. proxies (session self))
             (HttpClient_init lib (AsObject (opt\<lparr>proxy_address := Some []\<rparr>)))
           = Inr []"
    "map_sum id (\<lambda>self. proxies (session self))
             (HttpClient_init lib (AsObject (opt\<lparr>proxy_address := None\<rparr>)))
           = Inr []"
    unfolding HttpClient_init_proxies
    by (simp_all add: set_proxies_def Let_def mount_def new_Session_def)
  from a b c show ?thesis by simp
qed

theorem proxy_address_witness:
  "proxy_address (HttpClientOption_init None None (Some ''proxy.local:8080'') None None None)
     = Some ''proxy.local:8080'' \<and>
   map_sum id (\<lambda>self. proxies (session self))
     (HttpClient_init sample_lib
        (AsObject (HttpClientOption_init None None (Some ''proxy.local:8080'') None None None)))
     = Inr [(''http'', ''http://proxy.local:8080''), (''https'', ''http://proxy.local:8080'')] \<and>
   HttpClient_init sample_lib
     (AsObject (HttpClientOption_init None None (Some ''onlyhost'') None None None))
     = Inl (ValueError BadProxyAddress)"
proof -
  have p: "proxy_address (HttpClientOption_init None None (Some ''proxy.local:8080'') None None None)
     = Some ''proxy.local:8080''"
    by (simp add: HttpClientOption_init_def)
  have ne: "''proxy.local:8080'' \<noteq> []" by simp
  have u: "(HttpClientOption_init None None (Some ''proxy.local:8080'') None None None)
             \<lparr>proxy_address := Some ''onlyhost''\<rparr>
           = HttpClientOption_init None None (Some ''onlyhost'') None None None"
    by (simp add: HttpClientOption_init_def)
  from proxy_address_accepted_iff_two_parts_and_int_port [OF p ne, of sample_lib]
  show ?thesis
    using p by (auto simp: u sample_int_of_str str_int_samples split: sum.splits)
qed

text \<open>
  Claim C6 as stated fails: a proxy address with port 0, or with port -1, is accepted.
\<close>

theorem zero_or_negative_proxy_port_is_accepted:
  "map_sum id (\<lambda>self. proxies (session self))
     (HttpClient_init sample_lib
        (AsObject (HttpClientOption_init None None (Some ''proxy.local:0'') None None None)))
     = Inr [(''http'', ''http://proxy.local:0''), (''https'', ''http://proxy.local:0'')] \<and>
   map_sum id (\<lambda>self. proxies (session self))
     (HttpClient_init sample_lib
        (AsObject (HttpClientOption_init None None (Some ''proxy.local:-1'') None None None)))
     = Inr [(''http'', ''http://proxy.local:-1''), (''https'', ''http://proxy.local:-1'')]"
  by (simp add: HttpClient_init_proxies HttpClientOption_init_def set_proxies_def Let_def
      sample_int_of_str str_int_samples mount_def new_Session_def)

section \<open>Responses\<close>

lemma then_decode_fst: "fst (then_decode lib x) = fst x"
  by (simp add: then_decode_def)

lemma HttpClient_get_calls:
  "fst (HttpClient_get send self url hdrs) =
     [\<lparr> sc_method = ''GET'', sc_url = url, sc_data = None, sc_headers = hdrs,
        sc_timeout = HttpClient_build_timeout self \<rparr>]"
  by (simp add: HttpClient_get_def session_request_def Let_def)

lemma HttpClient_post_json_calls:
  "fst (HttpClient_post_json lib send self url data hdrs) =
     [\<lparr> sc_method = ''POST'', sc_url = url,
        sc_data = Some (TextBody (case data of PyStr s \<Rightarrow> s | _ \<Rightarrow> json_dumps lib data)),
        sc_headers = Some (merge_headers [(''Content-Type'', ''application/json; charset=utf-8'')] hdrs),
        sc_timeout = HttpClient_build_timeout self \<rparr>]"
  by (simp add: HttpClient_post_json_def session_request_def Let_def)

lemma HttpClient_post_form_calls:
  "fst (HttpClient_post_form send self url data hdrs) =
     [\<lparr> sc_method = ''POST'', sc_url = url, sc_data = Some (FormFields data),
        sc_headers = Some (merge_headers
          [(''Content-Type'', ''application/x-www-form-urlencoded; charset=UTF-8'')] hdrs),
        sc_timeout = HttpClient_build_timeout self \<rparr>]"
  by (simp add: HttpClient_post_form_def session_request_def Let_def)






lemma sample_upper: "str_upper sample_lib ''put'' = ''PUT''" "str_upper sample_lib ''GET'' = ''GET''"
  "str_upper sample_lib ''get'' = ''GET''" "str_upper sample_lib ''PUT'' = ''PUT''"
  by (simp_all add: sample_lib_def ascii_upper_def)




section \<open>The V1 scheme\<close>

lemma OpenAPIKeyClient_build_auth_headers_list:
  "OpenAPIKeyClient_build_auth_headers lib w self body =
     [(''X-Api-Key'', api_key self),
      (''X-Timestamp'', str_int (int_trunc (float_mul lib (time_time w) 1000))),
      (''X-Nonce'', remove_char CHR ''-'' (uuid4_str w)),
      (''X-Signature'',
         hmac_sha256_hexdigest lib (api_secret self)
           (api_key self @ str_int (int_trunc (float_mul lib (time_time w) 1000))
              @ remove_char CHR ''-'' (uuid4_str w) @ body)),
      (''Content-Type'', ''application/json'')]"
  by (simp add: OpenAPIKeyClient_build_auth_headers_def OpenAPIKeyClient_generate_signature_def Let_def)

lemma merge_auth_headers:
  "merge_headers [(''Content-Type'', ct)]
     (Some [(''X-Api-Key'', k), (''X-Timestamp'', t), (''X-Nonce'', n), (''X-Signature'', sg),
            (''Content-Type'', ''application/json'')])
   = [(''Content-Type'', ''application/json''), (''X-Api-Key'', k), (''X-Timestamp'', t),
      (''X-Nonce'', n), (''X-Signature'', sg)]"
  by (simp add: merge_headers_def dict_update_def)

lemma int_trunc_numeral: "int_trunc (numeral k) = numeral k"
  by (simp add: int_trunc_def)

lemma sample_clock:
  "int_trunc (float_mul sample_lib (time_time sample_world) 1000) = 1700000000500"
  "float_mul sample_lib (time_time sample_world) 1000 = 1700000000500"
  "\<lfloor>time_time sample_world * 1000\<rfloor> = 1700000000500"
  "int_trunc (time_time sample_world) = 1700000000"
  "remove_char CHR ''-'' (uuid4_str sample_world) = ''123e4567e89b42d3a456426614174000''"
  "0 \<le> time_time sample_world"
  by (simp_all add: sample_lib_def sample_world_def int_trunc_def floor_eq_iff remove_char_def)

declare int_trunc_numeral [simp]


lemma sample_key_client_fields:
  "api_key sample_key_client = ''KEY''" "api_secret sample_key_client = ''SECRET''"
  "base_url sample_key_client = ''https://api.example.com/''"
  "client sample_key_client = sample_http_client"
  by (simp_all add: sample_key_client_def)

lemma sample_timeout: "HttpClient_build_timeout sample_http_client = (60, 60)"
  by (simp add: HttpClient_build_timeout_def sample_http_client_def HttpClientOption_init_def)

lemma sample_full_url:
  "full_url_of sample_lib sample_key_client u = ''https://api.example.com/'' @ lstrip CHR ''/'' u"
  by (simp add: full_url_of_def sample_key_client_def sample_lib_def)

lemma sample_key_client_v2_fields:
  "api_key sample_key_client_v2 = ''KEY''" "api_secret sample_key_client_v2 = ''SECRET''"
  "base_url sample_key_client_v2 = ''https://api.example.com/''"
  "client sample_key_client_v2 = sample_http_client_v2"
  by (simp_all add: sample_key_client_v2_def)

lemma sample_timeout_v2: "HttpClient_build_timeout sample_http_client_v2 = (30, 30)"
  by (simp add: HttpClient_build_timeout_def sample_http_client_v2_def HttpClientOption_init_def)

lemma sample_full_url_v2:
  "full_url_of sample_lib sample_key_client_v2 u = ''https://api.example.com/'' @ lstrip CHR ''/'' u"
  by (simp add: full_url_of_def sample_key_client_v2_def sample_lib_def)



text \<open>The same at the sample clock and client, for a GET of \<open>/users\<close>.\<close>

lemma v1_example:
  "fst (OpenAPIKeyClient_get sample_lib send sample_world sample_key_client ''/users'') =
     [\<lparr> sc_method = ''GET'', sc_url = ''https://api.example.com/users'', sc_data = None,
        sc_headers = Some
          [(''X-Api-Key'', ''KEY''), (''X-Timestamp'', ''1700000000500''),
           (''X-Nonce'', ''123e4567e89b42d3a456426614174000''),
           (''X-Signature'',
              hmac_sha256_hexdigest sample_lib ''SECRET''
                ''KEY1700000000500123e4567e89b42d3a456426614174000''),
           (''Content-Type'', ''application/json'')],
        sc_timeout = (60, 60) \<rparr>]"
  by (simp add: OpenAPIKeyClient_build_auth_headers_list OpenAPIKeyClient_get_def
      Let_def then_decode_fst HttpClient_get_calls sample_clock sample_key_client_fields
      sample_timeout sample_full_url str_int_samples lstrip_def)

text \<open>
  Claim C9, as the code has it. \<open>post_form\<close> signs the JSON text of the fields and passes
  the fields themselves as \<open>data=\<close>, which \<open>requests\<close> form-encodes; the Content-Type it
  passes is the auth headers' application/json, which replaces the form default of
  \<open>HttpClient.post_form\<close>. Where \<open>json.dumps\<close> of a dict starts with a brace and the form
  encoding holds no brace (as Python's do), the signed body text is not the body sent.
\<close>

theorem post_form_signs_json_text_and_sends_form_fields:
  "fst (OpenAPIKeyClient_post_form lib send w self url data) =
     [\<lparr> sc_method = ''POST'', sc_url = full_url_of lib self url,
        sc_data = Some (FormFields data),
        sc_headers = Some
          [(''Content-Type'', ''application/json''),
           (''X-Api-Key'', api_key self),
           (''X-Timestamp'', str_int (int_trunc (float_mul lib (time_time w) 1000))),
           (''X-Nonce'', remove_char CHR ''-'' (uuid4_str w)),
           (''X-Signature'',
              hmac_sha256_hexdigest lib (api_secret self)
                (api_key self @ str_int (int_trunc (float_mul lib (time_time w) 1000))
                   @ remove_char CHR ''-'' (uuid4_str w) @ json_dumps lib (PyDict data)))],
        sc_timeout = HttpClient_build_timeout (client self) \<rparr>] \<and>
   ((\<exists>rest. json_dumps lib (PyDict data) = CHR ''{'' # rest) \<and>
     CHR ''{'' \<notin> set (form_urlencode lib data) \<longrightarrow>
       (\<forall>call \<in> set (fst (OpenAPIKeyClient_post_form lib send w self url data)).
          wire_body lib (sc_data call) \<noteq> json_dumps lib (PyDict data)))"
  by (auto simp: OpenAPIKeyClient_build_auth_headers_list OpenAPIKeyClient_post_form_def
      Let_def then_decode_fst HttpClient_post_form_calls merge_auth_headers wire_body_def)

theorem post_form_witness:
  \<open>fst (OpenAPIKeyClient_post_form sample_lib (sample_send 200 []) sample_world sample_key_client
          ''form'' [(''a'', PyInt 1)]) =
     [\<lparr> sc_method = ''POST'', sc_url = ''https://api.example.com/form'',
        sc_data = Some (FormFields [(''a'', PyInt 1)]),
        sc_headers = Some
          [(''Content-Type'', ''application/json''),
           (''X-Api-Key'', ''KEY''),
           (''X-Timestamp'', ''1700000000500''),
           (''X-Nonce'', ''123e4567e89b42d3a456426614174000''),
           (''X-Signature'',
              hmac_sha256_hexdigest sample_lib ''SECRET''
                ''KEY1700000000500123e4567e89b42d3a456426614174000{"a": 1}'')],
        sc_timeout = (60, 60) \<rparr>] \<and>
   json_dumps sample_lib (PyDict [(''a'', PyInt 1)]) = ''{"a": 1}'' \<and>
   form_urlencode sample_lib [(''a'', PyInt 1)] = ''a=1'' \<and>
   wire_body sample_lib (Some (FormFields [(''a'', PyInt 1)])) \<noteq> ''{"a": 1}''\<close>
proof -
  have j: \<open>json_dumps sample_lib (PyDict [(''a'', PyInt 1)]) = ''{"a": 1}''\<close>
    "form_urlencode sample_lib [(''a'', PyInt 1)] = ''a=1''"
    by (simp_all add: sample_lib_def)
  note t = post_form_signs_json_text_and_sends_form_fields
    [where lib = sample_lib and send = "sample_send 200 []" and w = sample_world
       and self = sample_key_client and url = "''form''" and data = "[(''a'', PyInt 1)]"]
  have calls: \<open>fst (OpenAPIKeyClient_post_form sample_lib (sample_send 200 []) sample_world
          sample_key_client ''form'' [(''a'', PyInt 1)]) =
     [\<lparr> sc_method = ''POST'', sc_url = ''https://api.example.com/form'',
        sc_data = Some (FormFields [(''a'', PyInt 1)]),
        sc_headers = Some
          [(''Content-Type'', ''application/json''),
           (''X-Api-Key'', ''KEY''),
           (''X-Timestamp'', ''1700000000500''),
           (''X-Nonce'', ''123e4567e89b42d3a456426614174000''),
           (''X-Signature'',
              hmac_sha256_hexdigest sample_lib ''SECRET''
                ''KEY1700000000500123e4567e89b42d3a456426614174000{"a": 1}'')],
        sc_timeout = (60, 60) \<rparr>]\<close>
    using t
    by (simp add: j sample_clock sample_key_client_fields sample_timeout sample_full_url
        str_int_samples lstrip_def)
  have hyp: "(\<exists>rest. json_dumps sample_lib (PyDict [(''a'', PyInt 1)]) = CHR ''{'' # rest) \<and>
     CHR ''{'' \<notin> set (form_urlencode sample_lib [(''a'', PyInt 1)])"
    by (simp add: j)
  from t hyp have "\<forall>call \<in> set (fst (OpenAPIKeyClient_post_form sample_lib (sample_send 200 [])
        sample_world sample_key_client ''form'' [(''a'', PyInt 1)])).
          wire_body sample_lib (sc_data call) \<noteq> json_dumps sample_lib (PyDict [(''a'', PyInt 1)])"
    by blast
  then have differ: \<open>wire_body sample_lib (Some (FormFields [(''a'', PyInt 1)])) \<noteq> ''{"a": 1}''\<close>
    unfolding calls by (simp add: j)
  from calls differ j show ?thesis by simp
qed

text \<open>
  Claim C9 as stated fails in its Content-Type: the header that \<open>post_form\<close> passes to the
  transport is application/json, not application/x-www-form-urlencoded.
\<close>

theorem post_form_content_type_is_json:
  "map (\<lambda>call. map_option (\<lambda>h. map_of h ''Content-Type'') (sc_headers call))
     (fst (OpenAPIKeyClient_post_form sample_lib (sample_send 200 []) sample_world
             sample_key_client ''form'' [(''a'', PyInt 1)]))
   = [Some (Some ''application/json'')]"
  by (simp add: OpenAPIKeyClient_build_auth_headers_list OpenAPIKeyClient_post_form_def
      Let_def then_decode_fst HttpClient_post_form_calls merge_auth_headers)

section \<open>The V2 scheme\<close>

lemma OpenAPIKeyClientV2_build_auth_headers_v2_list:
  "OpenAPIKeyClientV2_build_auth_headers_v2 lib w self verb pth body =
     [(''X-Api-Key'', api_key self),
      (''X-Timestamp'', str_int (int_trunc (time_time w))),
      (''X-Nonce'', remove_char CHR ''-'' (uuid4_str w)),
      (''X-Signature'',
         hmac_sha256_hexdigest lib (api_secret self)
           (str_upper lib verb @ pth @ api_key self @ str_int (int_trunc (time_time w))
              @ remove_char CHR ''-'' (uuid4_str w) @ body_hash_v2 lib body)),
      (''Content-Type'', ''application/json'')]"
  by (simp add: OpenAPIKeyClientV2_build_auth_headers_v2_def
      OpenAPIKeyClientV2_generate_signature_v2_def sign_text_v2_def Let_def)

lemma sample_sha256:
  "sha256_hexdigest sample_lib [] = ''e3b0c44298fc1c149afbf4c8996fb92427ae41e4649b934ca495991b7852b855''"
  \<open>sha256_hexdigest sample_lib ''{"a": 1}'' = ''f9d86028c6e0d64e225186f96acb69338b2c59764df79162107f5c4bb34d1310''\<close>
  by (simp_all add: sample_lib_def)

text \<open>
  Claim C2. In \<open>_generate_signature_v2\<close>, an empty body (the default of the argument)
  gives the empty \<open>body_hash\<close>: the signing text ends with the nonce, so it is 64
  characters shorter than it would be with the 64-character digest of the empty string,
  and differs from that. A non-empty body gives the hex digest of the body. The signature
  is the HMAC of that signing text, and it is the X-Signature of \<open>_build_auth_headers_v2\<close>.
\<close>

theorem v2_body_hash_is_empty_for_an_empty_body:
  "(body = [] \<longrightarrow>
      body_hash_v2 lib body = [] \<and>
      sign_text_v2 lib self verb pth ts nonce body
        = str_upper lib verb @ pth @ api_key self @ ts @ nonce \<and>
      (length (sha256_hexdigest lib []) = 64 \<longrightarrow>
         length (sign_text_v2 lib self verb pth ts nonce body) + 64
           = length (str_upper lib verb @ pth @ api_key self @ ts @ nonce @ sha256_hexdigest lib []) \<and>
         sign_text_v2 lib self verb pth ts nonce body
           \<noteq> str_upper lib verb @ pth @ api_key self @ ts @ nonce @ sha256_hexdigest lib [])) \<and>
   (body \<noteq> [] \<longrightarrow>
      body_hash_v2 lib body = sha256_hexdigest lib body \<and>
      sign_text_v2 lib self verb pth ts nonce body
        = str_upper lib verb @ pth @ api_key self @ ts @ nonce @ sha256_hexdigest lib body) \<and>
   OpenAPIKeyClientV2_generate_signature_v2 lib self verb pth ts nonce body
     = hmac_sha256_hexdigest lib (api_secret self) (sign_text_v2 lib self verb pth ts nonce body) \<and>
   map_of (OpenAPIKeyClientV2_build_auth_headers_v2 lib w self verb pth body) ''X-Signature''
     = Some (OpenAPIKeyClientV2_generate_signature_v2 lib self verb pth
               (str_int (int_trunc (time_time w))) (remove_char CHR ''-'' (uuid4_str w)) body)"
proof -
  have e: "body = [] \<longrightarrow>
      body_hash_v2 lib body = [] \<and>
      sign_text_v2 lib self verb pth ts nonce body
        = str_upper lib verb @ pth @ api_key self @ ts @ nonce"
    by (simp add: body_hash_v2_def sign_text_v2_def)
  have l: "body = [] \<longrightarrow> length (sha256_hexdigest lib []) = 64 \<longrightarrow>
         length (sign_text_v2 lib self verb pth ts nonce body) + 64
           = length (str_upper lib verb @ pth @ api_key self @ ts @ nonce @ sha256_hexdigest lib []) \<and>
         sign_text_v2 lib self verb pth ts nonce body
           \<noteq> str_upper lib verb @ pth @ api_key self @ ts @ nonce @ sha256_hexdigest lib []"
    by (auto simp: body_hash_v2_def sign_text_v2_def)
  have n: "body \<noteq> [] \<longrightarrow>
      body_hash_v2 lib body = sha256_hexdigest lib body \<and>
      sign_text_v2 lib self verb pth ts nonce body
        = str_upper lib verb @ pth @ api_key self @ ts @ nonce @ sha256_hexdigest lib body"
    by (simp add: body_hash_v2_def sign_text_v2_def)
  have s: "OpenAPIKeyClientV2_generate_signature_v2 lib self verb pth ts nonce body
     = hmac_sha256_hexdigest lib (api_secret self) (sign_text_v2 lib self verb pth ts nonce body)"
    by (simp add: OpenAPIKeyClientV2_generate_signature_v2_def)
  have h: "map_of (OpenAPIKeyClientV2_build_auth_headers_v2 lib w self verb pth body) ''X-Signature''
     = Some (OpenAPIKeyClientV2_generate_signature_v2 lib self verb pth
               (str_int (int_trunc (time_time w))) (remove_char CHR ''-'' (uuid4_str w)) body)"
    by (simp add: OpenAPIKeyClientV2_build_auth_headers_v2_list
        OpenAPIKeyClientV2_generate_signature_v2_def sign_text_v2_def)
  from e l n s h show ?thesis by blast
qed

theorem v2_body_hash_witness:
  \<open>length (sha256_hexdigest sample_lib []) = 64 \<and>
   body_hash_v2 sample_lib [] = [] \<and>
   sign_text_v2 sample_lib sample_key_client_v2 ''get'' ''/users?page=2'' ''1700000000''
       ''123e4567e89b42d3a456426614174000'' []
     = ''GET/users?page=2KEY1700000000123e4567e89b42d3a456426614174000'' \<and>
   sign_text_v2 sample_lib sample_key_client_v2 ''get'' ''/users?page=2'' ''1700000000''
       ''123e4567e89b42d3a456426614174000'' []
     \<noteq> ''GET/users?page=2KEY1700000000123e4567e89b42d3a456426614174000e3b0c44298fc1c149afbf4c8996fb92427ae41e4649b934ca495991b7852b855'' \<and>
   sign_text_v2 sample_lib sample_key_client_v2 ''post'' ''/users'' ''1700000000''
       ''123e4567e89b42d3a456426614174000'' ''{"a": 1}''
     = ''POST/usersKEY1700000000123e4567e89b42d3a456426614174000f9d86028c6e0d64e225186f96acb69338b2c59764df79162107f5c4bb34d1310''\<close>
proof -
  have len: "length (sha256_hexdigest sample_lib []) = 64"
    by (simp add: sample_sha256)
  have up: "str_upper sample_lib ''get'' = ''GET''" "str_upper sample_lib ''post'' = ''POST''"
    by (simp_all add: sample_lib_def ascii_upper_def)
  note a = v2_body_hash_is_empty_for_an_empty_body
    [where lib = sample_lib and self = sample_key_client_v2 and verb = "''get''"
       and pth = "''/users?page=2''" and ts = "''1700000000''"
       and nonce = "''123e4567e89b42d3a456426614174000''" and body = "[]" and w = sample_world]
  note b = v2_body_hash_is_empty_for_an_empty_body
    [where lib = sample_lib and self = sample_key_client_v2 and verb = "''post''"
       and pth = "''/users''" and ts = "''1700000000''"
       and nonce = "''123e4567e89b42d3a456426614174000''" and body = \<open>''{"a": 1}''\<close>
       and w = sample_world]
  from a len have a': "body_hash_v2 sample_lib [] = []"
    "sign_text_v2 sample_lib sample_key_client_v2 ''get'' ''/users?page=2'' ''1700000000''
       ''123e4567e89b42d3a456426614174000'' []
     = ''GET/users?page=2KEY1700000000123e4567e89b42d3a456426614174000''"
    "sign_text_v2 sample_lib sample_key_client_v2 ''get'' ''/users?page=2'' ''1700000000''
       ''123e4567e89b42d3a456426614174000'' []
     \<noteq> ''GET/users?page=2KEY1700000000123e4567e89b42d3a456426614174000e3b0c44298fc1c149afbf4c8996fb92427ae41e4649b934ca495991b7852b855''"
    by (simp_all add: up sample_key_client_v2_fields sample_sha256)
  from b have b': \<open>sign_text_v2 sample_lib sample_key_client_v2 ''post'' ''/users'' ''1700000000''
       ''123e4567e89b42d3a456426614174000'' ''{"a": 1}''
     = ''POST/usersKEY1700000000123e4567e89b42d3a456426614174000f9d86028c6e0d64e225186f96acb69338b2c59764df79162107f5c4bb34d1310''\<close>
    by (simp add: up sample_key_client_v2_fields sample_sha256)
  from len a' b' show ?thesis by simp
qed

section \<open>OpenAPIKeyClientV2.request and the method override\<close>

text \<open>
  \<open>OpenAPIKeyClientV2.request\<close> raises NameError on every call, before it signs or sends
  anything (\<open>OpenAPIKeyClientV2_request_raises\<close>). The lemmas after it say what lines 346
  to 378 do once a path is at hand, and what the token clients send for PUT and DELETE.
\<close>

lemma OpenAPIKeyClientV2_request_raises:
  "OpenAPIKeyClientV2_request lib send w self verb url data = ([], Inl (NameError ''urlparse''))"
  by (simp add: OpenAPIKeyClientV2_request_def load_global_def OpenAPIKeyClient_globals_def Let_def)

lemma as_pyval_json: "(case as_pyval data of PyStr s \<Rightarrow> s | _ \<Rightarrow> json_dumps lib (as_pyval data))
    = json_dumps lib (as_pyval data)"
  by (simp add: as_pyval_def split: option.splits)

lemma request_rest_get_or_delete:
  assumes "str_upper lib verb = ''GET'' \<or> str_upper lib verb = ''DELETE''"
  shows "fst (OpenAPIKeyClientV2_request_rest lib send w self verb full_url pth data) =
     [\<lparr> sc_method = ''GET'', sc_url = full_url, sc_data = None,
        sc_headers = Some (OpenAPIKeyClientV2_build_auth_headers_v2 lib w self verb pth
            (case data of None \<Rightarrow> [] | Some d \<Rightarrow> json_dumps lib (PyDict d))),
        sc_timeout = HttpClient_build_timeout (client self) \<rparr>]"
  using assms
  by (auto simp: OpenAPIKeyClientV2_request_rest_def Let_def then_decode_fst HttpClient_get_calls)

lemma request_rest_post_or_put:
  assumes "str_upper lib verb = ''POST'' \<or> str_upper lib verb = ''PUT''"
  shows "fst (OpenAPIKeyClientV2_request_rest lib send w self verb full_url pth data) =
     [\<lparr> sc_method = ''POST'', sc_url = full_url,
        sc_data = Some (TextBody (json_dumps lib (as_pyval data))),
        sc_headers = Some (merge_headers [(''Content-Type'', ''application/json; charset=utf-8'')]
          (Some (OpenAPIKeyClientV2_build_auth_headers_v2 lib w self verb pth
            (case data of None \<Rightarrow> [] | Some d \<Rightarrow> json_dumps lib (PyDict d))))),
        sc_timeout = HttpClient_build_timeout (client self) \<rparr>]"
  using assms
  by (auto simp: OpenAPIKeyClientV2_request_rest_def Let_def then_decode_fst
      HttpClient_post_json_calls as_pyval_json)

lemma token_put_and_delete_carry_the_override:
  "fst (OpenAPITokenClient_put lib send tc url data) =
     [\<lparr> sc_method = ''POST'', sc_url = full_url_of lib tc url,
        sc_data = Some (TextBody (json_dumps lib (PyDict data))),
        sc_headers = Some [(''Content-Type'', ''application/json; charset=utf-8''),
                           (''X-HTTP-Method-Override'', ''PUT'')],
        sc_timeout = HttpClient_build_timeout (client tc) \<rparr>]"
  "fst (OpenAPITokenClient_delete lib send tc url) =
     [\<lparr> sc_method = ''GET'', sc_url = full_url_of lib tc url, sc_data = None,
        sc_headers = Some [(''X-HTTP-Method-Override'', ''DELETE'')],
        sc_timeout = HttpClient_build_timeout (client tc) \<rparr>]"
  by (simp_all add: OpenAPITokenClient_put_def OpenAPITokenClient_delete_def Let_def
      then_decode_fst HttpClient_post_json_calls HttpClient_get_calls merge_headers_def
      dict_update_def)

lemma token_request_put_and_delete_carry_the_override:
  "str_upper lib verb = ''PUT'' \<Longrightarrow>
   fst (OpenAPITokenClientV2_request lib send tcv verb url data) =
     [\<lparr> sc_method = ''POST'', sc_url = full_url_of lib tcv url,
        sc_data = Some (TextBody (json_dumps lib
          (if truthy (as_pyval data) then as_pyval data else PyDict []))),
        sc_headers = Some [(''Content-Type'', ''application/json; charset=utf-8''),
                           (''X-HTTP-Method-Override'', ''PUT'')],
        sc_timeout = HttpClient_build_timeout (client tcv) \<rparr>]"
  "str_upper lib verb = ''DELETE'' \<Longrightarrow>
   fst (OpenAPITokenClientV2_request lib send tcv verb url data) =
     [\<lparr> sc_method = ''GET'', sc_url = full_url_of lib tcv url, sc_data = None,
        sc_headers = Some [(''X-HTTP-Method-Override'', ''DELETE'')],
        sc_timeout = HttpClient_build_timeout (client tcv) \<rparr>]"
  by (auto simp: OpenAPITokenClientV2_request_def Let_def
      then_decode_fst HttpClient_post_json_calls HttpClient_get_calls merge_headers_def
      dict_update_def as_pyval_def split: option.splits)

lemma sample_upper_more:
  "str_upper sample_lib ''DELETE'' = ''DELETE''" "str_upper sample_lib ''POST'' = ''POST''"
  by (simp_all add: sample_lib_def ascii_upper_def)

lemma sample_json_dumps:
  \<open>json_dumps sample_lib (PyDict [(''a'', PyInt 1)]) = ''{"a": 1}''\<close>
  by (simp add: sample_lib_def)

text \<open>
  Claim C1, at the call \<open>request("GET", "users?page=2")\<close> of the sample client: the code
  raises NameError for \<open>urlparse\<close> and makes no call, so nothing is signed. With the path
  and query that \<open>urlparse\<close> gives for the joined URL, lines 346 to 378 sign the text that
  the claim describes.
\<close>

theorem request_v2_raises_NameError_before_signing:
  "OpenAPIKeyClientV2_request sample_lib (sample_send 200 []) sample_world sample_key_client_v2
      ''GET'' ''users?page=2'' None
     = ([], Inl (NameError ''urlparse'')) \<and>
   full_url_of sample_lib sample_key_client_v2 ''users?page=2'' = ''https://api.example.com/users?page=2'' \<and>
   urlparse sample_lib ''https://api.example.com/users?page=2''
     = \<lparr> path = ''/users'', query = ''page=2'' \<rparr> \<and>
   fst (OpenAPIKeyClientV2_request_rest sample_lib (sample_send 200 []) sample_world
          sample_key_client_v2 ''GET'' ''https://api.example.com/users?page=2'' ''/users?page=2'' None)
     = [\<lparr> sc_method = ''GET'', sc_url = ''https://api.example.com/users?page=2'', sc_data = None,
          sc_headers = Some
            [(''X-Api-Key'', ''KEY''), (''X-Timestamp'', ''1700000000''),
             (''X-Nonce'', ''123e4567e89b42d3a456426614174000''),
             (''X-Signature'',
                hmac_sha256_hexdigest sample_lib ''SECRET''
                  ''GET/users?page=2KEY1700000000123e4567e89b42d3a456426614174000''),
             (''Content-Type'', ''application/json'')],
          sc_timeout = (30, 30) \<rparr>]"
  by (simp add: OpenAPIKeyClientV2_request_raises sample_full_url_v2 lstrip_def
      request_rest_get_or_delete sample_upper OpenAPIKeyClientV2_build_auth_headers_v2_list
      sample_clock sample_key_client_v2_fields sample_timeout_v2 str_int_samples body_hash_v2_def)
    (simp add: sample_lib_def)

text \<open>
  Claim C4, at the call \<open>request("PUT", "items/1", {"a": 1})\<close> of the sample key client:
  the code raises NameError and sends nothing. Lines 346 to 378 would send a POST (a GET
  for DELETE) whose headers hold no X-HTTP-Method-Override, where
  \<open>OpenAPITokenClientV2.request\<close> sends the POST with the header set to PUT.
\<close>

theorem request_v2_put_raises_NameError_and_sets_no_override:
  "OpenAPIKeyClientV2_request sample_lib (sample_send 200 []) sample_world sample_key_client_v2
      ''PUT'' ''items/1'' (Some [(''a'', PyInt 1)])
     = ([], Inl (NameError ''urlparse'')) \<and>
   map (\<lambda>call. (sc_method call,
                 map_option (\<lambda>h. map_of h ''X-HTTP-Method-Override'') (sc_headers call)))
     (fst (OpenAPIKeyClientV2_request_rest sample_lib (sample_send 200 []) sample_world
             sample_key_client_v2 ''PUT'' ''https://api.example.com/items/1'' ''/items/1''
             (Some [(''a'', PyInt 1)])))
     = [(''POST'', Some None)] \<and>
   map (\<lambda>call. (sc_method call,
                 map_option (\<lambda>h. map_of h ''X-HTTP-Method-Override'') (sc_headers call)))
     (fst (OpenAPIKeyClientV2_request_rest sample_lib (sample_send 200 []) sample_world
             sample_key_client_v2 ''DELETE'' ''https://api.example.com/items/1'' ''/items/1'' None))
     = [(''GET'', Some None)] \<and>
   map (\<lambda>call. (sc_method call,
                 map_option (\<lambda>h. map_of h ''X-HTTP-Method-Override'') (sc_headers call)))
     (fst (OpenAPITokenClientV2_request sample_lib (sample_send 200 []) sample_token_client_v2
             ''PUT'' ''items/1'' (Some [(''a'', PyInt 1)])))
     = [(''POST'', Some (Some ''PUT''))]"
  by (simp add: OpenAPIKeyClientV2_request_raises request_rest_get_or_delete
      request_rest_post_or_put sample_upper sample_upper_more
      OpenAPIKeyClientV2_build_auth_headers_v2_list merge_auth_headers
      token_request_put_and_delete_carry_the_override)

text \<open>
  Claim C8, at the call \<open>request("GET", "users", {"a": 1})\<close> of the sample client: the
  code raises NameError before it builds any header. Lines 346 to 378 would sign the
  digest of the JSON text of the data and send the GET without a body.
\<close>

theorem request_v2_get_with_data_raises_NameError:
  "OpenAPIKeyClientV2_request sample_lib (sample_send 200 []) sample_world sample_key_client_v2
      ''GET'' ''users'' (Some [(''a'', PyInt 1)])
     = ([], Inl (NameError ''urlparse'')) \<and>
   fst (OpenAPIKeyClientV2_request_rest sample_lib (sample_send 200 []) sample_world
          sample_key_client_v2 ''GET'' ''https://api.example.com/users'' ''/users''
          (Some [(''a'', PyInt 1)]))
     = [\<lparr> sc_method = ''GET'', sc_url = ''https://api.example.com/users'', sc_data = None,
          sc_headers = Some
            [(''X-Api-Key'', ''KEY''), (''X-Timestamp'', ''1700000000''),
             (''X-Nonce'', ''123e4567e89b42d3a456426614174000''),
             (''X-Signature'',
                hmac_sha256_hexdigest sample_lib ''SECRET''
                  ''GET/usersKEY1700000000123e4567e89b42d3a456426614174000f9d86028c6e0d64e225186f96acb69338b2c59764df79162107f5c4bb34d1310''),
             (''Content-Type'', ''application/json'')],
          sc_timeout = (30, 30) \<rparr>]"
  by (simp add: OpenAPIKeyClientV2_request_raises request_rest_get_or_delete sample_upper
      OpenAPIKeyClientV2_build_auth_headers_v2_list sample_clock sample_key_client_v2_fields
      sample_timeout_v2 str_int_samples body_hash_v2_def sample_json_dumps sample_sha256)

end
